theory Spec2Isabelle
  imports Complex_Main
begin

section \<open>The warehouse store\<close>

text \<open>
  The pipeline of \<^verbatim>\<open>etl_pipeline.py\<close> talks to one SQL store through one connection. The
  store is modelled as the tables the program names, each with its catalog columns (what
  \<^verbatim>\<open>INFORMATION_SCHEMA.COLUMNS\<close> lists, in ordinal order) and its rows. A scalar is NULL,
  an integer, a text or a FLOAT; FLOAT arithmetic is taken exact (rationals), which leaves
  rounding out of the model. \<^verbatim>\<open>None\<close> and \<^verbatim>\<open>NaN\<close> of a data frame are both \<open>Null\<close>.
\<close>

datatype sqlval = Null | IntV int | StrV string | FloatV rat

type_synonym row = "(string \<times> sqlval) list"

record table =
  columns :: "string list"
  rows :: "row list"

datatype tname =
    Stg_Customers | Stg_Bookings | Stg_Payments | Stg_Aircrafts | Stg_Flights | Stg_Routes
  | Stg_CustomerSatisfaction | Stg_API_Flights
  | DimCustomer | DimAircraft | DimRoute | DimFlight | DimPayment | DimSatisfaction
  | FactBooking

datatype error =
    Invalid_object tname       \<comment> \<open>a statement names a table the store does not have\<close>
  | Invalid_column string      \<comment> \<open>a statement names a column its table does not have\<close>
  | Syntax_error               \<comment> \<open>\<^verbatim>\<open>INSERT INTO t () VALUES ()\<close>\<close>
  | Rejected tname row         \<comment> \<open>the store refuses the inserted values (type, constraint)\<close>
  | Conversion_failed sqlval   \<comment> \<open>\<^verbatim>\<open>CAST(... AS FLOAT)\<close> of a text that is no number\<close>
  | Multiple_match tname       \<comment> \<open>MERGE would update one target row more than once\<close>
  | Index_error                \<comment> \<open>Python: \<^verbatim>\<open>cols[0]\<close> on an empty list\<close>

datatype event =
    Loading tname
  | Columns_not_retrieved tname
  | Columns_skipped "string set" tname
  | Error_inserting_row error
  | Row_data row
  | Rows_loaded nat tname
  | Merging_started
  | Table_info tname "string list"
  | Merged tname
  | Error_merging tname error
  | Merge_complete
  | Skipping_API
  | Pipeline_completed

record store =
  tables :: "tname \<Rightarrow> table option"
  log :: "event list"

text \<open>
  The declarations of the tables (column types, keys, constraints, defaults) and the
  store's conversions are not part of the Python source. What the program needs of them is
  a parameter: whether the store accepts one \<^verbatim>\<open>INSERT\<close> of named values into a table
  holding given rows, how it reads a text as FLOAT, and how it prints a value as NVARCHAR.
  Columns an \<^verbatim>\<open>INSERT\<close> does not name are stored as NULL.
\<close>

record engine =
  accepts :: "tname \<Rightarrow> row list \<Rightarrow> row \<Rightarrow> bool"
  text_to_float :: "string \<Rightarrow> rat option"
  to_nvarchar :: "sqlval \<Rightarrow> string"

definition say :: "event \<Rightarrow> store \<Rightarrow> store" where
  "say e st = st\<lparr>log := log st @ [e]\<rparr>"

definition col_val :: "row \<Rightarrow> string \<Rightarrow> sqlval" where
  "col_val r c = (case map_of r c of Some v \<Rightarrow> v | None \<Rightarrow> Null)"

text \<open>SQL \<^verbatim>\<open>a = b\<close> in an \<^verbatim>\<open>ON\<close> clause: true only for two equal values that are not NULL.\<close>

definition sql_eq :: "sqlval \<Rightarrow> sqlval \<Rightarrow> bool" where
  "sql_eq a b = (a \<noteq> Null \<and> b \<noteq> Null \<and> a = b)"

subsection \<open>Inserting rows\<close>

text \<open>The row a table with columns \<open>tcols\<close> stores for the named values \<open>r\<close>.\<close>

definition stored_row :: "string list \<Rightarrow> row \<Rightarrow> row" where
  "stored_row tcols r = map (\<lambda>c. (c, col_val r c)) tcols"

text \<open>One \<^verbatim>\<open>INSERT INTO T (names) VALUES (values)\<close> into a table holding the rows \<open>acc\<close>.\<close>

definition insert_row :: "engine \<Rightarrow> tname \<Rightarrow> string list \<Rightarrow> row list \<Rightarrow> row \<Rightarrow> error + row list" where
  "insert_row eng T tcols acc r =
     (if r = [] then Inl Syntax_error
      else case find (\<lambda>c. c \<notin> set tcols) (map fst r) of
             Some c \<Rightarrow> Inl (Invalid_column c)
           | None \<Rightarrow>
               if accepts eng T acc r
               then Inr (acc @ [stored_row tcols r])
               else Inl (Rejected T r))"

text \<open>Rows inserted one after the other; the first failure stops, with the offending row.\<close>

fun insert_rows :: "engine \<Rightarrow> tname \<Rightarrow> string list \<Rightarrow> row list \<Rightarrow> row list \<Rightarrow> (error \<times> row) + row list" where
  "insert_rows eng T tcols acc [] = Inr acc"
| "insert_rows eng T tcols acc (r # rs) =
     (case insert_row eng T tcols acc r of
        Inl e \<Rightarrow> Inl (e, r)
      | Inr acc' \<Rightarrow> insert_rows eng T tcols acc' rs)"

section \<open>Column lookup\<close>

text \<open>
  \<^verbatim>\<open>transform_oltp2_aircrafts\<close>, lines 104-108: the loop over the candidate names that stops
  at the first one found among the columns (\<open>None\<close> is Python's \<^verbatim>\<open>id_col = None\<close>).
\<close>

fun first_present :: "string list \<Rightarrow> string list \<Rightarrow> string option" where
  "first_present [] cols = None"
| "first_present (possible_id # rest) cols =
     (if possible_id \<in> set cols then Some possible_id else first_present rest cols)"

definition aircraft_dedup_id_col :: "string list \<Rightarrow> string option" where
  "aircraft_dedup_id_col cols = first_present [''AircraftID'', ''PlaneID'', ''ID''] cols"

text \<open>\<^verbatim>\<open>merge_to_dim_fact\<close>, line 294.\<close>

definition aircraft_id_col :: "string list \<Rightarrow> string" where
  "aircraft_id_col stg_aircrafts_cols =
     (if ''PlaneID'' \<in> set stg_aircrafts_cols then ''PlaneID'' else ''AircraftID'')"

text \<open>
  The pattern \<^verbatim>\<open>'X' if 'X' in cols else cols[0]\<close> of lines 309, 326, 342, 360 and 398;
  \<^verbatim>\<open>cols[0]\<close> raises IndexError on an empty list.
\<close>

definition name_or_first :: "string \<Rightarrow> string list \<Rightarrow> error + string" where
  "name_or_first x cols =
     (if x \<in> set cols then Inr x
      else case cols of [] \<Rightarrow> Inl Index_error | c # _ \<Rightarrow> Inr c)"

text \<open>The pattern \<^verbatim>\<open>'X' if 'X' in cols else 'Y'\<close> of lines 311, 344, 345 and 401.\<close>

definition name_or_else :: "string \<Rightarrow> string \<Rightarrow> string list \<Rightarrow> string" where
  "name_or_else x y cols = (if x \<in> set cols then x else y)"

section \<open>Staging load\<close>

record frame =
  df_columns :: "string list"
  df_rows :: "row list"

text \<open>\<^verbatim>\<open>df[valid_columns]\<close>: the frame restricted to the listed columns.\<close>

definition select_columns :: "frame \<Rightarrow> string list \<Rightarrow> frame" where
  "select_columns df cs =
     \<lparr>df_columns = cs, df_rows = map (\<lambda>r. map (\<lambda>c. (c, col_val r c)) cs) (df_rows df)\<rparr>"

text \<open>\<^verbatim>\<open>df.iterrows()\<close>: each row as the values of the frame's columns, by name.\<close>

definition iterrows :: "frame \<Rightarrow> row list" where
  "iterrows df = map (\<lambda>r. map (\<lambda>c. (c, col_val r c)) (df_columns df)) (df_rows df)"

text \<open>\<^verbatim>\<open>df.empty\<close>: no rows or no columns.\<close>

definition df_empty :: "frame \<Rightarrow> bool" where
  "df_empty df = (df_rows df = [] \<or> df_columns df = [])"

definition get_table_columns :: "(tname \<Rightarrow> table option) \<Rightarrow> tname \<Rightarrow> string list" where
  "get_table_columns db table_name = (case db table_name of None \<Rightarrow> [] | Some t \<Rightarrow> columns t)"

text \<open>Lines 228-236 of \<^verbatim>\<open>load_to_staging\<close>: the projection on the catalog columns and its warning.\<close>

definition project_to_table :: "frame \<Rightarrow> tname \<Rightarrow> store \<Rightarrow> frame \<times> store" where
  "project_to_table df table_name st =
     (let db_columns = get_table_columns (tables st) table_name in
      if db_columns = [] then (df, say (Columns_not_retrieved table_name) st)
      else
        let valid_columns = filter (\<lambda>c. c \<in> set db_columns) (df_columns df) in
        (select_columns df valid_columns,
         if length valid_columns \<noteq> length (df_columns df)
         then say (Columns_skipped (set (df_columns df) - set db_columns) table_name) st
         else st))"

text \<open>
  \<^verbatim>\<open>load_to_staging\<close>. The \<^verbatim>\<open>DELETE\<close> is committed before the inserts; the inserts are
  committed after the loop. When an insert raises, the exception leaves \<^verbatim>\<open>main\<close> with the
  inserts of this load uncommitted, so the table is left as the \<^verbatim>\<open>DELETE\<close> made it.
  The result is the exception raised, if any, and the store.
\<close>

definition load_to_staging :: "engine \<Rightarrow> frame \<Rightarrow> tname \<Rightarrow> store \<Rightarrow> error option \<times> store" where
  "load_to_staging eng df table_name st =
     (case project_to_table df table_name (say (Loading table_name) st) of
        (df', st') \<Rightarrow>
          (case tables st' table_name of
             None \<Rightarrow> (Some (Invalid_object table_name), st')
           | Some t \<Rightarrow>
               let cleared = st'\<lparr>tables := (tables st')(table_name \<mapsto> t\<lparr>rows := []\<rparr>)\<rparr> in
               (case insert_rows eng table_name (columns t) [] (iterrows df') of
                  Inl (e, r) \<Rightarrow> (Some e, say (Row_data r) (say (Error_inserting_row e) cleared))
                | Inr rs \<Rightarrow>
                    (None,
                     say (Rows_loaded (length (df_rows df')) table_name)
                       (cleared\<lparr>tables := (tables cleared)(table_name \<mapsto> t\<lparr>rows := rs\<rparr>)\<rparr>)))))"

definition print_table_info :: "tname \<Rightarrow> store \<Rightarrow> string list \<times> store" where
  "print_table_info table_name st =
     (let cols = get_table_columns (tables st) table_name
      in (cols, say (Table_info table_name cols) st))"

section \<open>The MERGE statement\<close>

text \<open>
  The value expressions of the statements: a source column, or
  \<^verbatim>\<open>CAST(src.c AS NVARCHAR(50))\<close>.
\<close>

datatype expr = Col string | Cast_nvarchar string

fun expr_col :: "expr \<Rightarrow> string" where
  "expr_col (Col c) = c"
| "expr_col (Cast_nvarchar c) = c"

fun eval_expr :: "engine \<Rightarrow> row \<Rightarrow> expr \<Rightarrow> sqlval" where
  "eval_expr eng s (Col c) = col_val s c"
| "eval_expr eng s (Cast_nvarchar c) =
     (case col_val s c of Null \<Rightarrow> Null | v \<Rightarrow> StrV (to_nvarchar eng v))"

text \<open>\<^verbatim>\<open>ON tgt.tkey = src.skey\<close> for a target row and a source row.\<close>

definition matches :: "string \<Rightarrow> string \<Rightarrow> row \<Rightarrow> row \<Rightarrow> bool" where
  "matches tkey skey t s = sql_eq (col_val t tkey) (col_val s skey)"

text \<open>\<^verbatim>\<open>WHEN MATCHED THEN UPDATE SET\<close>: the listed columns of a matched target row are overwritten.\<close>

definition update_row :: "engine \<Rightarrow> (string \<times> expr) list \<Rightarrow> string \<Rightarrow> string \<Rightarrow> row list \<Rightarrow> row \<Rightarrow> row" where
  "update_row eng upd tkey skey srcs t =
     (case find (matches tkey skey t) srcs of
        None \<Rightarrow> t
      | Some s \<Rightarrow>
          map (\<lambda>(c, v). (c, case map_of upd c of Some e \<Rightarrow> eval_expr eng s e | None \<Rightarrow> v)) t)"

text \<open>The named values of \<^verbatim>\<open>INSERT (c1, ...) VALUES (e1, ...)\<close> for the source row \<open>s\<close>.\<close>

definition named_values :: "engine \<Rightarrow> (string \<times> expr) list \<Rightarrow> row \<Rightarrow> row" where
  "named_values eng ins s = map (\<lambda>(c, e). (c, eval_expr eng s e)) ins"

text \<open>
  One \<^verbatim>\<open>MERGE tgt USING src ON tgt.tkey = src.skey\<close> with an optional
  \<^verbatim>\<open>WHEN MATCHED THEN UPDATE SET upd\<close> (\<open>upd = []\<close> when the statement has none) and
  \<^verbatim>\<open>WHEN NOT MATCHED THEN INSERT ins\<close>. The statement is compiled first (every column it
  names must exist), matching is against the target as it is before the statement, a target
  row matched by two source rows is an error when there is an update clause, and the result
  is the new target or the error, nothing in between.
\<close>

definition merge_stmt ::
  "engine \<Rightarrow> tname \<Rightarrow> table \<Rightarrow> string \<Rightarrow> table \<Rightarrow> string \<Rightarrow>
   (string \<times> expr) list \<Rightarrow> (string \<times> expr) list \<Rightarrow> error + table" where
  "merge_stmt eng T tgt tkey src skey upd ins =
     (case find (\<lambda>c. c \<notin> set (columns tgt)) (tkey # map fst upd @ map fst ins) of
        Some c \<Rightarrow> Inl (Invalid_column c)
      | None \<Rightarrow>
     (case find (\<lambda>c. c \<notin> set (columns src)) (skey # map (expr_col \<circ> snd) (upd @ ins)) of
        Some c \<Rightarrow> Inl (Invalid_column c)
      | None \<Rightarrow>
     if upd \<noteq> [] \<and> (\<exists>t \<in> set (rows tgt). 1 < length (filter (matches tkey skey t) (rows src)))
     then Inl (Multiple_match T)
     else
       (case insert_rows eng T (columns tgt)
               (map (update_row eng upd tkey skey (rows src)) (rows tgt))
               (map (named_values eng ins)
                  (filter (\<lambda>s. \<not> (\<exists>t \<in> set (rows tgt). matches tkey skey t s)) (rows src))) of
          Inl (e, r) \<Rightarrow> Inl e
        | Inr rs \<Rightarrow> Inr (tgt\<lparr>rows := rs\<rparr>))))"

text \<open>A statement over a target and a source table fails when either does not exist.\<close>

definition with_tables ::
  "(tname \<Rightarrow> table option) \<Rightarrow> tname \<Rightarrow> tname \<Rightarrow> (table \<Rightarrow> table \<Rightarrow> error + table) \<Rightarrow> error + table" where
  "with_tables db T S k =
     (case db T of
        None \<Rightarrow> Inl (Invalid_object T)
      | Some tgt \<Rightarrow> (case db S of None \<Rightarrow> Inl (Invalid_object S) | Some src \<Rightarrow> k tgt src))"

section \<open>The seven merges\<close>

text \<open>Lines 281-287.\<close>

definition merge_DimCustomer :: "engine \<Rightarrow> (tname \<Rightarrow> table option) \<Rightarrow> error + table" where
  "merge_DimCustomer eng db =
     with_tables db DimCustomer Stg_Customers (\<lambda>tgt src.
       merge_stmt eng DimCustomer tgt ''CustomerID'' src ''CustomerID''
         [(''Name'', Col ''Name'')]
         [(''CustomerID'', Col ''CustomerID''), (''Name'', Col ''Name'')])"

text \<open>Lines 294-302.\<close>

definition merge_DimAircraft :: "engine \<Rightarrow> string list \<Rightarrow> (tname \<Rightarrow> table option) \<Rightarrow> error + table" where
  "merge_DimAircraft eng stg_aircrafts_cols db =
     (let aircraft_id_col = aircraft_id_col stg_aircrafts_cols in
      with_tables db DimAircraft Stg_Aircrafts (\<lambda>tgt src.
        merge_stmt eng DimAircraft tgt ''AircraftID'' src aircraft_id_col []
          [(''AircraftID'', Col aircraft_id_col), (''Model'', Col ''Model''),
           (''Capacity'', Col ''Capacity''), (''ManufactureYear'', Col ''ManufactureYear'')]))"

text \<open>Lines 309-319.\<close>

definition merge_DimRoute :: "engine \<Rightarrow> string list \<Rightarrow> (tname \<Rightarrow> table option) \<Rightarrow> error + table" where
  "merge_DimRoute eng stg_routes_cols db =
     (case name_or_first ''RouteID'' stg_routes_cols of
        Inl e \<Rightarrow> Inl e
      | Inr route_id_col \<Rightarrow>
          let origin_col = name_or_else ''Source'' ''Origin'' stg_routes_cols in
          with_tables db DimRoute Stg_Routes (\<lambda>tgt src.
            merge_stmt eng DimRoute tgt ''RouteID'' src route_id_col []
              [(''RouteID'', Col route_id_col), (''Origin'', Col origin_col),
               (''Destination'', Col ''Destination''), (''Distance'', Col ''Distance'')]))"

text \<open>Lines 326-335.\<close>

definition merge_DimFlight :: "engine \<Rightarrow> string list \<Rightarrow> (tname \<Rightarrow> table option) \<Rightarrow> error + table" where
  "merge_DimFlight eng stg_flights_cols db =
     (case name_or_first ''FlightID'' stg_flights_cols of
        Inl e \<Rightarrow> Inl e
      | Inr flight_id_col \<Rightarrow>
          with_tables db DimFlight Stg_Flights (\<lambda>tgt src.
            merge_stmt eng DimFlight tgt ''FlightID'' src flight_id_col []
              [(''FlightID'', Col flight_id_col), (''FlightNumber'', Cast_nvarchar flight_id_col),
               (''DepartureTime'', Col ''DepartureTime''), (''ArrivalTime'', Col ''ArrivalTime'')]))"

text \<open>Lines 342-353.\<close>

definition merge_DimPayment :: "engine \<Rightarrow> string list \<Rightarrow> (tname \<Rightarrow> table option) \<Rightarrow> error + table" where
  "merge_DimPayment eng stg_payments_cols db =
     (case name_or_first ''PaymentID'' stg_payments_cols of
        Inl e \<Rightarrow> Inl e
      | Inr payment_id_col \<Rightarrow>
          let method_col = name_or_else ''Method'' ''PaymentMethod'' stg_payments_cols;
              date_col = name_or_else ''Date'' ''PaymentDate'' stg_payments_cols in
          with_tables db DimPayment Stg_Payments (\<lambda>tgt src.
            merge_stmt eng DimPayment tgt ''PaymentID'' src payment_id_col []
              [(''PaymentID'', Col payment_id_col), (''PaymentMethod'', Col method_col),
               (''Amount'', Col ''Amount''), (''PaymentDate'', Col date_col)]))"

subsection \<open>The satisfaction dimension\<close>

text \<open>The fourteen columns summed at lines 371-384, in the order of the statement.\<close>

definition rating_columns :: "string list" where
  "rating_columns =
     [''InflightWifiService'', ''DepartureArrivalConvenient'', ''EaseOfOnlineBooking'',
      ''GateLocation'', ''FoodAndDrink'', ''OnlineBoarding'', ''SeatComfort'',
      ''InflightEntertainment'', ''OnboardService'', ''LegRoomService'', ''BaggageHandling'',
      ''CheckinService'', ''InflightService'', ''Cleanliness'']"

definition cast_float :: "engine \<Rightarrow> sqlval \<Rightarrow> error + sqlval" where
  "cast_float eng v =
     (case v of
        Null \<Rightarrow> Inr Null
      | IntV i \<Rightarrow> Inr (FloatV (of_int i))
      | FloatV x \<Rightarrow> Inr (FloatV x)
      | StrV s \<Rightarrow>
          (case text_to_float eng s of
             None \<Rightarrow> Inl (Conversion_failed (StrV s))
           | Some x \<Rightarrow> Inr (FloatV x)))"

text \<open>SQL \<^verbatim>\<open>+\<close> and \<^verbatim>\<open>/\<close> on FLOAT: NULL when an operand is NULL.\<close>

fun sql_add :: "sqlval \<Rightarrow> sqlval \<Rightarrow> sqlval" where
  "sql_add (FloatV a) (FloatV b) = FloatV (a + b)"
| "sql_add _ _ = Null"

fun sql_div :: "sqlval \<Rightarrow> sqlval \<Rightarrow> sqlval" where
  "sql_div (FloatV a) (FloatV b) = FloatV (a / b)"
| "sql_div _ _ = Null"

fun cast_all :: "engine \<Rightarrow> sqlval list \<Rightarrow> error + sqlval list" where
  "cast_all eng [] = Inr []"
| "cast_all eng (v # vs) =
     (case cast_float eng v of
        Inl e \<Rightarrow> Inl e
      | Inr x \<Rightarrow> (case cast_all eng vs of Inl e \<Rightarrow> Inl e | Inr xs \<Rightarrow> Inr (x # xs)))"

text \<open>\<^verbatim>\<open>(CAST(c1 AS FLOAT) + ... + CAST(c14 AS FLOAT)) / 14.0\<close> for one staging row.\<close>

definition average_rating :: "engine \<Rightarrow> row \<Rightarrow> error + sqlval" where
  "average_rating eng r =
     (case cast_all eng (map (col_val r) rating_columns) of
        Inl e \<Rightarrow> Inl e
      | Inr [] \<Rightarrow> Inr Null
      | Inr (x # xs) \<Rightarrow> Inr (sql_div (foldl sql_add x xs) (FloatV 14)))"

fun satisfaction_rows :: "engine \<Rightarrow> row list \<Rightarrow> error + row list" where
  "satisfaction_rows eng [] = Inr []"
| "satisfaction_rows eng (r # rs) =
     (case average_rating eng r of
        Inl e \<Rightarrow> Inl e
      | Inr avg \<Rightarrow>
          (case satisfaction_rows eng rs of
             Inl e \<Rightarrow> Inl e
           | Inr out \<Rightarrow>
               Inr ([(''CustomerID'', col_val r ''CustomerID''),
                     (''TypeOfTravel'', col_val r ''TypeOfTravel''),
                     (''Class'', col_val r ''Class''),
                     (''FlightDistance'', col_val r ''FlightDistance''),
                     (''Satisfaction'', col_val r ''Satisfaction''),
                     (''AverageRating'', avg)] # out)))"

text \<open>The subquery of lines 365-385.\<close>

definition satisfaction_source :: "engine \<Rightarrow> table \<Rightarrow> error + table" where
  "satisfaction_source eng stg =
     (case find (\<lambda>c. c \<notin> set (columns stg))
             ([''CustomerID'', ''TypeOfTravel'', ''Class'', ''FlightDistance'', ''Satisfaction'']
              @ rating_columns) of
        Some c \<Rightarrow> Inl (Invalid_column c)
      | None \<Rightarrow>
          (case satisfaction_rows eng (rows stg) of
             Inl e \<Rightarrow> Inl e
           | Inr rs \<Rightarrow>
               Inr \<lparr>columns = [''CustomerID'', ''TypeOfTravel'', ''Class'', ''FlightDistance'',
                               ''Satisfaction'', ''AverageRating''],
                    rows = rs\<rparr>))"

text \<open>Lines 360-391. \<^verbatim>\<open>satisfaction_id_col\<close> is computed and not used by the statement.\<close>

definition merge_DimSatisfaction :: "engine \<Rightarrow> string list \<Rightarrow> (tname \<Rightarrow> table option) \<Rightarrow> error + table" where
  "merge_DimSatisfaction eng stg_satisfaction_cols db =
     (case name_or_first ''CustomerID'' stg_satisfaction_cols of
        Inl e \<Rightarrow> Inl e
      | Inr satisfaction_id_col \<Rightarrow>
          with_tables db DimSatisfaction Stg_CustomerSatisfaction (\<lambda>tgt stg.
            case satisfaction_source eng stg of
              Inl e \<Rightarrow> Inl e
            | Inr src \<Rightarrow>
                merge_stmt eng DimSatisfaction tgt ''CustomerID'' src ''CustomerID'' []
                  [(''CustomerID'', Col ''CustomerID''), (''TypeOfTravel'', Col ''TypeOfTravel''),
                   (''Class'', Col ''Class''), (''FlightDistance'', Col ''FlightDistance''),
                   (''Satisfaction'', Col ''Satisfaction''),
                   (''AverageRating'', Col ''AverageRating'')]))"

subsection \<open>The fact table\<close>

text \<open>
  \<^verbatim>\<open>Stg_Bookings b LEFT JOIN Stg_Flights f ON b.flight_id_col = f.FlightID\<close>: the flight
  rows joined to one booking row; a booking with no flight is joined to the all-NULL row
  (the empty row, whose every column reads NULL).
\<close>

definition joined_flights :: "string \<Rightarrow> row list \<Rightarrow> row \<Rightarrow> row list" where
  "joined_flights flight_id_col flights b =
     (case filter (\<lambda>f. sql_eq (col_val b flight_id_col) (col_val f ''FlightID'')) flights of
        [] \<Rightarrow> [[]]
      | fs \<Rightarrow> fs)"

text \<open>The select list of lines 408-415 for one joined pair.\<close>

definition booking_row :: "string \<Rightarrow> string \<Rightarrow> string \<Rightarrow> string \<Rightarrow> row \<Rightarrow> row \<Rightarrow> row" where
  "booking_row booking_id_col customer_id_col flight_id_col date_col b f =
     [(''BookingID'', col_val b booking_id_col),
      (''CustomerID'', col_val b customer_id_col),
      (''FlightID'', col_val b flight_id_col),
      (''RouteID'', col_val f ''RouteID''),
      (''AircraftID'', col_val f ''PlaneID''),
      (''PaymentID'', col_val b booking_id_col),
      (''SatisfactionKey'', col_val b customer_id_col),
      (''BookingDate'', col_val b date_col)]"

text \<open>The subquery of lines 407-417.\<close>

definition booking_source ::
  "string \<Rightarrow> string \<Rightarrow> string \<Rightarrow> string \<Rightarrow> table \<Rightarrow> table \<Rightarrow> error + table" where
  "booking_source booking_id_col customer_id_col flight_id_col date_col bookings flights =
     (case find (\<lambda>c. c \<notin> set (columns bookings))
             [booking_id_col, customer_id_col, flight_id_col, date_col] of
        Some c \<Rightarrow> Inl (Invalid_column c)
      | None \<Rightarrow>
     (case find (\<lambda>c. c \<notin> set (columns flights)) [''RouteID'', ''PlaneID'', ''FlightID''] of
        Some c \<Rightarrow> Inl (Invalid_column c)
      | None \<Rightarrow>
          Inr \<lparr>columns = [''BookingID'', ''CustomerID'', ''FlightID'', ''RouteID'', ''AircraftID'',
                          ''PaymentID'', ''SatisfactionKey'', ''BookingDate''],
               rows = concat (map (\<lambda>b.
                        map (booking_row booking_id_col customer_id_col flight_id_col date_col b)
                          (joined_flights flight_id_col (rows flights) b))
                      (rows bookings))\<rparr>))"

text \<open>Lines 398-423.\<close>

definition merge_FactBooking :: "engine \<Rightarrow> string list \<Rightarrow> (tname \<Rightarrow> table option) \<Rightarrow> error + table" where
  "merge_FactBooking eng stg_bookings_cols db =
     (case name_or_first ''BookingID'' stg_bookings_cols of
        Inl e \<Rightarrow> Inl e
      | Inr booking_id_col \<Rightarrow>
          let customer_id_col = name_or_else ''CustomerID'' ''CustomerID'' stg_bookings_cols;
              flight_id_col = name_or_else ''FlightID'' ''FlightID'' stg_bookings_cols;
              date_col = name_or_else ''Date'' ''BookingDate'' stg_bookings_cols in
          with_tables db FactBooking Stg_Bookings (\<lambda>tgt bookings.
            case db Stg_Flights of
              None \<Rightarrow> Inl (Invalid_object Stg_Flights)
            | Some flights \<Rightarrow>
                (case booking_source booking_id_col customer_id_col flight_id_col date_col
                        bookings flights of
                   Inl e \<Rightarrow> Inl e
                 | Inr src \<Rightarrow>
                     merge_stmt eng FactBooking tgt ''BookingID'' src ''BookingID'' []
                       [(''BookingID'', Col ''BookingID''), (''CustomerID'', Col ''CustomerID''),
                        (''FlightID'', Col ''FlightID''), (''RouteID'', Col ''RouteID''),
                        (''AircraftID'', Col ''AircraftID''), (''PaymentID'', Col ''PaymentID''),
                        (''SatisfactionKey'', Col ''SatisfactionKey''),
                        (''BookingDate'', Col ''BookingDate'')])))"

section \<open>The merger\<close>

text \<open>
  One \<^verbatim>\<open>try: ... except Exception as e: print(...)\<close> block: the new target is stored when
  the statement succeeds; otherwise the error is printed with the table's name and the
  store is left as it is.
\<close>

definition try_merge :: "tname \<Rightarrow> error + table \<Rightarrow> store \<Rightarrow> store" where
  "try_merge T res st =
     (case res of
        Inr t \<Rightarrow> say (Merged T) (st\<lparr>tables := (tables st)(T \<mapsto> t)\<rparr>)
      | Inl e \<Rightarrow> say (Error_merging T e) st)"

text \<open>The seven \<^verbatim>\<open>print_table_info\<close> calls of lines 270-276, in their order.\<close>

definition print_staging_info :: "store \<Rightarrow> store" where
  "print_staging_info st =
     fold (\<lambda>T s. snd (print_table_info T s))
       [Stg_Customers, Stg_Aircrafts, Stg_Routes, Stg_Flights, Stg_Payments,
        Stg_CustomerSatisfaction, Stg_Bookings] st"

text \<open>
  \<^verbatim>\<open>merge_to_dim_fact\<close>: the column lists are read once at the start, then the seven
  blocks run in the order of the source, each on the store the previous one left.
\<close>

definition merge_to_dim_fact :: "engine \<Rightarrow> store \<Rightarrow> store" where
  "merge_to_dim_fact eng st0 =
     (let cols = get_table_columns (tables st0) in
      say Merge_complete
        (fold (\<lambda>block st. block st)
           [\<lambda>st. try_merge DimCustomer (merge_DimCustomer eng (tables st)) st,
            \<lambda>st. try_merge DimAircraft (merge_DimAircraft eng (cols Stg_Aircrafts) (tables st)) st,
            \<lambda>st. try_merge DimRoute (merge_DimRoute eng (cols Stg_Routes) (tables st)) st,
            \<lambda>st. try_merge DimFlight (merge_DimFlight eng (cols Stg_Flights) (tables st)) st,
            \<lambda>st. try_merge DimPayment (merge_DimPayment eng (cols Stg_Payments) (tables st)) st,
            \<lambda>st. try_merge DimSatisfaction
                   (merge_DimSatisfaction eng (cols Stg_CustomerSatisfaction) (tables st)) st,
            \<lambda>st. try_merge FactBooking (merge_FactBooking eng (cols Stg_Bookings) (tables st)) st]
           (print_staging_info (say Merging_started st0))))"

section \<open>The pipeline\<close>

text \<open>
  The batches \<^verbatim>\<open>main\<close> holds after the extract and transform steps (lines 439-454), which
  are outside this model.
\<close>

record batches =
  df_cust :: frame
  df_book :: frame
  df_pay :: frame
  df_air :: frame
  df_flights :: frame
  df_routes :: frame
  df_api :: frame
  df_csv :: frame

text \<open>A sequence of \<^verbatim>\<open>load_to_staging\<close> calls: the first exception ends it.\<close>

fun load_all :: "engine \<Rightarrow> (frame \<times> tname) list \<Rightarrow> store \<Rightarrow> error option \<times> store" where
  "load_all eng [] st = (None, st)"
| "load_all eng ((df, T) # later) st =
     (case load_to_staging eng df T st of
        (Some e, st') \<Rightarrow> (Some e, st')
      | (None, st') \<Rightarrow> load_all eng later st')"

text \<open>Lines 457-463.\<close>

definition staging_loads :: "batches \<Rightarrow> (frame \<times> tname) list" where
  "staging_loads b =
     [(df_cust b, Stg_Customers), (df_book b, Stg_Bookings), (df_pay b, Stg_Payments),
      (df_air b, Stg_Aircrafts), (df_flights b, Stg_Flights), (df_routes b, Stg_Routes),
      (df_csv b, Stg_CustomerSatisfaction)]"

text \<open>Lines 457-475 of \<^verbatim>\<open>main\<close>: the result is the uncaught exception, if any, and the store.\<close>

definition main :: "engine \<Rightarrow> batches \<Rightarrow> store \<Rightarrow> error option \<times> store" where
  "main eng b st =
     (case load_all eng (staging_loads b) st of
        (Some e, st1) \<Rightarrow> (Some e, st1)
      | (None, st1) \<Rightarrow>
          (case (if \<not> df_empty (df_api b) then load_to_staging eng (df_api b) Stg_API_Flights st1
                 else (None, say Skipping_API st1)) of
             (Some e, st2) \<Rightarrow> (Some e, st2)
           | (None, st2) \<Rightarrow> (None, say Pipeline_completed (merge_to_dim_fact eng st2))))"



section \<open>Notions used in the statements\<close>



section \<open>Example stores\<close>

text \<open>A store that accepts every insert, reads no text as a number and prints every value as the empty text.\<close>

definition lenient :: engine where
  "lenient = \<lparr>accepts = (\<lambda>T held r. True), text_to_float = (\<lambda>s. None), to_nvarchar = (\<lambda>v. [])\<rparr>"

text \<open>One booking whose flight 9 is not among the staged flights; the fact table is empty.\<close>

definition booking_db :: "tname \<Rightarrow> table option" where
  "booking_db =
     (\<lambda>T. None)
       (FactBooking \<mapsto>
          \<lparr>columns = [''BookingID'', ''CustomerID'', ''FlightID'', ''RouteID'', ''AircraftID'',
                      ''PaymentID'', ''SatisfactionKey'', ''BookingDate''],
           rows = []\<rparr>,
        Stg_Bookings \<mapsto>
          \<lparr>columns = [''BookingID'', ''CustomerID'', ''FlightID'', ''BookingDate''],
           rows = [[(''BookingID'', IntV 1), (''CustomerID'', IntV 40), (''FlightID'', IntV 9),
                    (''BookingDate'', StrV ''2024-01-05'')]]\<rparr>,
        Stg_Flights \<mapsto>
          \<lparr>columns = [''FlightID'', ''RouteID'', ''PlaneID''],
           rows = [[(''FlightID'', IntV 8), (''RouteID'', IntV 3), (''PlaneID'', IntV 5)]]\<rparr>)"










section \<open>Basic facts\<close>


lemma map_of_keyed: "map_of (map (\<lambda>c. (c, f c)) cs) c = (if c \<in> set cs then Some (f c) else None)"
  by (induction cs) auto

lemma col_val_stored_row:
  "col_val (stored_row tcols r) c = (if c \<in> set tcols then col_val r c else Null)"
  by (simp add: stored_row_def col_val_def map_of_keyed)

lemma insert_row_Inr:
  "insert_row eng T tcols acc r = Inr out \<Longrightarrow> out = acc @ [stored_row tcols r]"
  by (auto simp: insert_row_def split: if_splits option.splits)

lemma insert_rows_Inr:
  "insert_rows eng T tcols acc rs = Inr out \<Longrightarrow> out = acc @ map (stored_row tcols) rs"
proof (induction rs arbitrary: acc)
  case Nil
  then show ?case by simp
next
  case (Cons r rs)
  from Cons.prems obtain acc' where a: "insert_row eng T tcols acc r = Inr acc'"
    and b: "insert_rows eng T tcols acc' rs = Inr out"
    by (auto split: sum.splits)
  from insert_row_Inr[OF a] Cons.IH[OF b] show ?case by simp
qed

lemma update_row_no_clause: "update_row eng [] tkey skey srcs t = t"
proof -
  have "map (\<lambda>(c, v). (c, v)) t = t" by (induction t) auto
  then show ?thesis by (simp add: update_row_def split: option.splits)
qed

lemma find_None_subset: "find (\<lambda>c. c \<notin> set cols) cs = None \<longleftrightarrow> set cs \<subseteq> set cols"
  by (auto simp: find_None_iff)

text \<open>What a successful insert-only MERGE leaves.\<close>

lemma merge_stmt_insert_only:
  assumes "merge_stmt eng T tgt tkey src skey [] ins = Inr t'"
  shows "t' = tgt\<lparr>rows := rows tgt @
            map (\<lambda>s. stored_row (columns tgt) (named_values eng ins s))
              (filter (\<lambda>s. \<not> (\<exists>t \<in> set (rows tgt). matches tkey skey t s)) (rows src))\<rparr>"
    and "set (tkey # map fst ins) \<subseteq> set (columns tgt)"
    and "set (skey # map (expr_col \<circ> snd) ins) \<subseteq> set (columns src)"
proof -
  have c1: "find (\<lambda>c. c \<notin> set (columns tgt)) (tkey # map fst [] @ map fst ins) = None"
    using assms unfolding merge_stmt_def
    by (cases "find (\<lambda>c. c \<notin> set (columns tgt)) (tkey # map fst [] @ map fst ins)") simp_all
  have c2: "find (\<lambda>c. c \<notin> set (columns src)) (skey # map (expr_col \<circ> snd) ([] @ ins)) = None"
    using assms c1 unfolding merge_stmt_def
    by (cases "find (\<lambda>c. c \<notin> set (columns src)) (skey # map (expr_col \<circ> snd) ([] @ ins))") simp_all
  show "set (tkey # map fst ins) \<subseteq> set (columns tgt)"
    using c1 unfolding find_None_subset by simp
  show "set (skey # map (expr_col \<circ> snd) ins) \<subseteq> set (columns src)"
    using c2 unfolding find_None_subset by simp
  obtain rs where rs: "insert_rows eng T (columns tgt)
        (map (update_row eng [] tkey skey (rows src)) (rows tgt))
        (map (named_values eng ins)
           (filter (\<lambda>s. \<not> (\<exists>t \<in> set (rows tgt). matches tkey skey t s)) (rows src))) = Inr rs"
     and t': "t' = tgt\<lparr>rows := rs\<rparr>"
    using assms c1 c2 unfolding merge_stmt_def by (simp split: sum.splits prod.splits)
  have "map (update_row eng [] tkey skey (rows src)) (rows tgt) = rows tgt"
    by (rule map_idI) (simp add: update_row_no_clause)
  with insert_rows_Inr[OF rs] t'
  show "t' = tgt\<lparr>rows := rows tgt @
            map (\<lambda>s. stored_row (columns tgt) (named_values eng ins s))
              (filter (\<lambda>s. \<not> (\<exists>t \<in> set (rows tgt). matches tkey skey t s)) (rows src))\<rparr>"
    by (simp add: comp_def)
qed


lemma booking_row_vals:
  "col_val (booking_row bid cid fid dc b f) ''BookingID'' = col_val b bid"
  "col_val (booking_row bid cid fid dc b f) ''CustomerID'' = col_val b cid"
  "col_val (booking_row bid cid fid dc b f) ''FlightID'' = col_val b fid"
  "col_val (booking_row bid cid fid dc b f) ''RouteID'' = col_val f ''RouteID''"
  "col_val (booking_row bid cid fid dc b f) ''AircraftID'' = col_val f ''PlaneID''"
  "col_val (booking_row bid cid fid dc b f) ''PaymentID'' = col_val b bid"
  "col_val (booking_row bid cid fid dc b f) ''SatisfactionKey'' = col_val b cid"
  "col_val (booking_row bid cid fid dc b f) ''BookingDate'' = col_val b dc"
  by (simp_all add: booking_row_def col_val_def)

lemma fact_named_values:
  "col_val (named_values eng
      [(''BookingID'', Col ''BookingID''), (''CustomerID'', Col ''CustomerID''),
       (''FlightID'', Col ''FlightID''), (''RouteID'', Col ''RouteID''),
       (''AircraftID'', Col ''AircraftID''), (''PaymentID'', Col ''PaymentID''),
       (''SatisfactionKey'', Col ''SatisfactionKey''),
       (''BookingDate'', Col ''BookingDate'')] s) c =
   (if c \<in> {''BookingID'', ''CustomerID'', ''FlightID'', ''RouteID'', ''AircraftID'',
              ''PaymentID'', ''SatisfactionKey'', ''BookingDate''} then col_val s c else Null)"
  by (simp add: named_values_def col_val_def)


lemma booking_source_Inr:
  assumes "booking_source bid cid fid dc bookings flights = Inr src"
  shows "rows src = concat (map (\<lambda>b. map (booking_row bid cid fid dc b)
                          (joined_flights fid (rows flights) b)) (rows bookings))"
  using assms unfolding booking_source_def
  by (auto split: option.splits)

lemma merge_FactBooking_Inr:
  assumes "merge_FactBooking eng cols db = Inr t'"
  obtains bid tgt bookings flights src where
    "name_or_first ''BookingID'' cols = Inr bid"
    "db FactBooking = Some tgt" "db Stg_Bookings = Some bookings" "db Stg_Flights = Some flights"
    "booking_source bid ''CustomerID'' ''FlightID'' (name_or_else ''Date'' ''BookingDate'' cols)
       bookings flights = Inr src"
    "merge_stmt eng FactBooking tgt ''BookingID'' src ''BookingID'' []
       [(''BookingID'', Col ''BookingID''), (''CustomerID'', Col ''CustomerID''),
        (''FlightID'', Col ''FlightID''), (''RouteID'', Col ''RouteID''),
        (''AircraftID'', Col ''AircraftID''), (''PaymentID'', Col ''PaymentID''),
        (''SatisfactionKey'', Col ''SatisfactionKey''),
        (''BookingDate'', Col ''BookingDate'')] = Inr t'"
  using assms unfolding merge_FactBooking_def with_tables_def Let_def name_or_else_def
  by (simp split: sum.splits option.splits)


lemma with_tables_cong:
  "db T = db' T \<Longrightarrow> db S = db' S \<Longrightarrow> with_tables db T S k = with_tables db' T S k"
  by (simp add: with_tables_def split: option.splits)

lemma merge_DimCustomer_cong:
  "db DimCustomer = db' DimCustomer \<Longrightarrow> db Stg_Customers = db' Stg_Customers \<Longrightarrow>
   merge_DimCustomer eng db = merge_DimCustomer eng db'"
  unfolding merge_DimCustomer_def by (rule with_tables_cong)






lemma merge_FactBooking_cong:
  "db FactBooking = db' FactBooking \<Longrightarrow> db Stg_Bookings = db' Stg_Bookings \<Longrightarrow>
   db Stg_Flights = db' Stg_Flights \<Longrightarrow>
   merge_FactBooking eng cols db = merge_FactBooking eng cols db'"
  unfolding merge_FactBooking_def Let_def
  by (cases "name_or_first ''BookingID'' cols") (simp_all add: with_tables_def split: option.splits)

lemma tables_say [simp]: "tables (say e st) = tables st"
  by (simp add: say_def)

lemma log_say [simp]: "log (say e st) = log st @ [e]"
  by (simp add: say_def)



lemma tables_print_table_info [simp]: "tables (snd (print_table_info T st)) = tables st"
  by (simp add: print_table_info_def Let_def)

lemma tables_print_staging_info [simp]: "tables (print_staging_info st) = tables st"
  by (simp add: print_staging_info_def)











section \<open>Column resolution\<close>

lemma first_present_Some_iff:
  "first_present as cols = Some a \<longleftrightarrow>
     (\<exists>pre post. as = pre @ a # post \<and> a \<in> set cols \<and> (\<forall>p \<in> set pre. p \<notin> set cols))"
proof (induction as)
  case Nil
  then show ?case by simp
next
  case (Cons x xs)
  show ?case
  proof (cases "x \<in> set cols")
    case True
    have "(\<exists>pre post. x # xs = pre @ a # post \<and> a \<in> set cols \<and> (\<forall>p \<in> set pre. p \<notin> set cols)) \<longleftrightarrow> x = a"
    proof
      assume "\<exists>pre post. x # xs = pre @ a # post \<and> a \<in> set cols \<and> (\<forall>p \<in> set pre. p \<notin> set cols)"
      then obtain pre post where h: "x # xs = pre @ a # post" "\<forall>p \<in> set pre. p \<notin> set cols" by blast
      show "x = a"
      proof (cases pre)
        case Nil then show ?thesis using h by simp
      next
        case (Cons p ps) then show ?thesis using h True by auto
      qed
    next
      assume "x = a"
      then have "x # xs = [] @ a # xs \<and> a \<in> set cols \<and> (\<forall>p \<in> set []. p \<notin> set cols)" using True by simp
      then show "\<exists>pre post. x # xs = pre @ a # post \<and> a \<in> set cols \<and> (\<forall>p \<in> set pre. p \<notin> set cols)" by blast
    qed
    then show ?thesis using True by auto
  next
    case False
    have "(\<exists>pre post. x # xs = pre @ a # post \<and> a \<in> set cols \<and> (\<forall>p \<in> set pre. p \<notin> set cols))
       \<longleftrightarrow> (\<exists>pre post. xs = pre @ a # post \<and> a \<in> set cols \<and> (\<forall>p \<in> set pre. p \<notin> set cols))"
      (is "?L \<longleftrightarrow> ?R")
    proof
      assume ?L
      then obtain pre post where h: "x # xs = pre @ a # post" "a \<in> set cols" "\<forall>p \<in> set pre. p \<notin> set cols" by blast
      show ?R
      proof (cases pre)
        case Nil then show ?thesis using h False by simp
      next
        case (Cons p ps)
        then have "xs = ps @ a # post \<and> a \<in> set cols \<and> (\<forall>p \<in> set ps. p \<notin> set cols)" using h by simp
        then show ?thesis by blast
      qed
    next
      assume ?R
      then obtain pre post where h: "xs = pre @ a # post" "a \<in> set cols" "\<forall>p \<in> set pre. p \<notin> set cols" by blast
      then have "x # xs = (x # pre) @ a # post \<and> a \<in> set cols \<and> (\<forall>p \<in> set (x # pre). p \<notin> set cols)"
        using False by simp
      then show ?L by blast
    qed
    then show ?thesis using False Cons.IH by simp
  qed
qed

lemma first_present_None_iff: "first_present as cols = None \<longleftrightarrow> (\<forall>a \<in> set as. a \<notin> set cols)"
  by (induction as) auto

lemma first_present_cong: "set cols = set cols' \<Longrightarrow> first_present as cols = first_present as cols'"
  by (induction as) auto

text \<open>
  C3, as stated, fails: with the candidates in the order PlaneID, AircraftID, ID and the
  columns AircraftID and PlaneID, the loop of the transform step answers PlaneID, the first
  candidate, not AircraftID; and the aircraft merge, whose candidates are PlaneID then
  AircraftID, answers AircraftID for the columns ID and Model, a name that is not a column.
\<close>

theorem alias_order_counterexample:
  "first_present [''PlaneID'', ''AircraftID'', ''ID''] [''AircraftID'', ''PlaneID''] \<noteq> Some ''AircraftID''
   \<and> aircraft_id_col [''ID'', ''Model''] \<noteq> ''ID''"
  by (simp add: aircraft_id_col_def)

text \<open>
  C3, amended: the lookup returns the first candidate, in candidate order, that is among
  the columns (none when no candidate is), whatever the order of the columns. The
  candidates of the aircraft transform are AircraftID, PlaneID, ID in this order, so the
  columns ID, Model give ID and the columns AircraftID, PlaneID give AircraftID in either
  column order. The aircraft merge takes PlaneID when it is a column and AircraftID otherwise.
\<close>

theorem first_present_alias_order:
  "(first_present as cols = Some a \<longleftrightarrow>
      (\<exists>pre post. as = pre @ a # post \<and> a \<in> set cols \<and> (\<forall>p \<in> set pre. p \<notin> set cols)))
   \<and> (first_present as cols = None \<longleftrightarrow> (\<forall>a \<in> set as. a \<notin> set cols))
   \<and> (set cols = set cols' \<longrightarrow> first_present as cols = first_present as cols')
   \<and> aircraft_dedup_id_col [''ID'', ''Model''] = Some ''ID''
   \<and> aircraft_dedup_id_col [''AircraftID'', ''PlaneID''] = Some ''AircraftID''
   \<and> aircraft_dedup_id_col [''PlaneID'', ''AircraftID''] = Some ''AircraftID''
   \<and> aircraft_id_col cols = (if ''PlaneID'' \<in> set cols then ''PlaneID'' else ''AircraftID'')"
  using first_present_Some_iff[of as cols a] first_present_None_iff[of as cols]
    first_present_cong[of cols cols' as]
  by (simp add: aircraft_dedup_id_col_def aircraft_id_col_def)

theorem first_present_alias_order_witness:
  "first_present [''PlaneID'', ''AircraftID'', ''ID''] [''ID'', ''Model''] = Some ''ID''
   \<and> first_present [''PlaneID'', ''AircraftID'', ''ID''] [''AircraftID'', ''PlaneID''] = Some ''PlaneID''
   \<and> first_present [''PlaneID'', ''AircraftID'', ''ID''] [''PlaneID'', ''AircraftID''] =
       first_present [''PlaneID'', ''AircraftID'', ''ID''] [''AircraftID'', ''PlaneID'']"
  using first_present_alias_order[of "[''PlaneID'', ''AircraftID'', ''ID'']"
      "[''PlaneID'', ''AircraftID'']" "''PlaneID''" "[''AircraftID'', ''PlaneID'']"]
  by simp

section \<open>The keys of the fact table\<close>

lemma booking_db_merge:
  "merge_FactBooking lenient [''BookingID'', ''CustomerID'', ''FlightID'', ''BookingDate''] booking_db =
   Inr \<lparr>columns = [''BookingID'', ''CustomerID'', ''FlightID'', ''RouteID'', ''AircraftID'',
                      ''PaymentID'', ''SatisfactionKey'', ''BookingDate''],
        rows = [[(''BookingID'', IntV 1), (''CustomerID'', IntV 40), (''FlightID'', IntV 9),
                 (''RouteID'', Null), (''AircraftID'', Null), (''PaymentID'', IntV 1),
                 (''SatisfactionKey'', IntV 40), (''BookingDate'', StrV ''2024-01-05'')]]\<rparr>"
  by (simp add: merge_FactBooking_def booking_db_def lenient_def name_or_first_def
        name_or_else_def with_tables_def booking_source_def joined_flights_def booking_row_def
        merge_stmt_def insert_row_def stored_row_def named_values_def col_val_def sql_eq_def
        matches_def Let_def)

text \<open>
  C10: when the fact merge succeeds, every row it adds to FactBooking comes from a booking
  staging row \<open>b\<close> and stores, as PaymentID, the value the row stores as BookingID (the
  booking's own identifier) and, as SatisfactionKey, the booking's CustomerID. The payment
  and satisfaction tables, staging or dimension, are not read: replacing them by anything
  leaves the merge as it is.
\<close>

theorem fact_payment_and_satisfaction_keys:
  assumes "merge_FactBooking eng cols db = Inr t'"
      and "db FactBooking = Some tgt" and "db Stg_Bookings = Some bookings"
      and "name_or_first ''BookingID'' cols = Inr bid"
  shows "(\<exists>new. rows t' = rows tgt @ new \<and>
           (\<forall>r \<in> set new. \<exists>b \<in> set (rows bookings).
               col_val r ''BookingID'' = col_val b bid
             \<and> col_val r ''PaymentID'' = col_val b bid
             \<and> col_val r ''CustomerID'' = col_val b ''CustomerID''
             \<and> col_val r ''SatisfactionKey'' = col_val b ''CustomerID''))
       \<and> merge_FactBooking eng cols
            (db(Stg_Payments := p, Stg_CustomerSatisfaction := s, DimPayment := dp,
                DimSatisfaction := ds)) = merge_FactBooking eng cols db"
proof
  let ?ins = "[(''BookingID'', Col ''BookingID''), (''CustomerID'', Col ''CustomerID''),
        (''FlightID'', Col ''FlightID''), (''RouteID'', Col ''RouteID''),
        (''AircraftID'', Col ''AircraftID''), (''PaymentID'', Col ''PaymentID''),
        (''SatisfactionKey'', Col ''SatisfactionKey''),
        (''BookingDate'', Col ''BookingDate'')]"
  from assms(1) obtain bid' tgt' bookings' flights src where
    h: "name_or_first ''BookingID'' cols = Inr bid'"
    "db FactBooking = Some tgt'" "db Stg_Bookings = Some bookings'" "db Stg_Flights = Some flights"
    "booking_source bid' ''CustomerID'' ''FlightID'' (name_or_else ''Date'' ''BookingDate'' cols)
       bookings' flights = Inr src"
    "merge_stmt eng FactBooking tgt' ''BookingID'' src ''BookingID'' [] ?ins = Inr t'"
    by (rule merge_FactBooking_Inr)
  from h assms have eq: "bid' = bid" "tgt' = tgt" "bookings' = bookings" by simp_all
  let ?dc = "name_or_else ''Date'' ''BookingDate'' cols"
  let ?new = "map (\<lambda>s. stored_row (columns tgt) (named_values eng ?ins s))
              (filter (\<lambda>s. \<not> (\<exists>t \<in> set (rows tgt). matches ''BookingID'' ''BookingID'' t s)) (rows src))"
  have t': "t' = tgt\<lparr>rows := rows tgt @ ?new\<rparr>"
    and cols_ok: "set (''BookingID'' # map fst ?ins) \<subseteq> set (columns tgt)"
    using merge_stmt_insert_only(1,2)[OF h(6)[unfolded eq]] by blast+
  have src_rows: "rows src = concat (map (\<lambda>b. map (booking_row bid ''CustomerID'' ''FlightID'' ?dc b)
                          (joined_flights ''FlightID'' (rows flights) b)) (rows bookings))"
    using booking_source_Inr[OF h(5)[unfolded eq]] .
  have "\<exists>b \<in> set (rows bookings).
               col_val r ''BookingID'' = col_val b bid
             \<and> col_val r ''PaymentID'' = col_val b bid
             \<and> col_val r ''CustomerID'' = col_val b ''CustomerID''
             \<and> col_val r ''SatisfactionKey'' = col_val b ''CustomerID''" if "r \<in> set ?new" for r
  proof -
    from that obtain s where s: "s \<in> set (rows src)"
      and r: "r = stored_row (columns tgt) (named_values eng ?ins s)" by auto
    from s src_rows obtain b f where b: "b \<in> set (rows bookings)"
      and sb: "s = booking_row bid ''CustomerID'' ''FlightID'' ?dc b f" by auto
    have "col_val r ''BookingID'' = col_val b bid" "col_val r ''PaymentID'' = col_val b bid"
      "col_val r ''CustomerID'' = col_val b ''CustomerID''"
      "col_val r ''SatisfactionKey'' = col_val b ''CustomerID''"
      using cols_ok unfolding r sb col_val_stored_row fact_named_values
      by (simp_all add: booking_row_vals)
    with b show ?thesis by blast
  qed
  with t' show "\<exists>new. rows t' = rows tgt @ new \<and>
           (\<forall>r \<in> set new. \<exists>b \<in> set (rows bookings).
               col_val r ''BookingID'' = col_val b bid
             \<and> col_val r ''PaymentID'' = col_val b bid
             \<and> col_val r ''CustomerID'' = col_val b ''CustomerID''
             \<and> col_val r ''SatisfactionKey'' = col_val b ''CustomerID'')"
    by (intro exI[of _ ?new]) simp
next
  show "merge_FactBooking eng cols
            (db(Stg_Payments := p, Stg_CustomerSatisfaction := s, DimPayment := dp,
                DimSatisfaction := ds)) = merge_FactBooking eng cols db"
    by (rule merge_FactBooking_cong) simp_all
qed


theorem fact_payment_and_satisfaction_keys_witness:
  "map (\<lambda>r. (col_val r ''BookingID'', col_val r ''PaymentID'', col_val r ''CustomerID'',
             col_val r ''SatisfactionKey''))
     (case merge_FactBooking lenient [''BookingID'', ''CustomerID'', ''FlightID'', ''BookingDate'']
             (booking_db(Stg_Payments := None, Stg_CustomerSatisfaction := None,
                DimPayment := None, DimSatisfaction := None)) of
        Inr t \<Rightarrow> rows t | Inl e \<Rightarrow> [])
   = [(IntV 1, IntV 1, IntV 40, IntV 40)]"
proof -
  have "booking_db FactBooking = Some \<lparr>columns = [''BookingID'', ''CustomerID'', ''FlightID'',
          ''RouteID'', ''AircraftID'', ''PaymentID'', ''SatisfactionKey'', ''BookingDate''],
          rows = []\<rparr>"
    and "booking_db Stg_Bookings = Some \<lparr>columns = [''BookingID'', ''CustomerID'', ''FlightID'',
          ''BookingDate''],
          rows = [[(''BookingID'', IntV 1), (''CustomerID'', IntV 40), (''FlightID'', IntV 9),
                   (''BookingDate'', StrV ''2024-01-05'')]]\<rparr>"
    and "name_or_first ''BookingID'' [''BookingID'', ''CustomerID'', ''FlightID'', ''BookingDate'']
           = Inr ''BookingID''"
    by (simp_all add: booking_db_def name_or_first_def)
  from fact_payment_and_satisfaction_keys[OF booking_db_merge this,
      of None None None None]
  show ?thesis
    by (simp add: booking_db_merge col_val_def)
qed

section \<open>The left outer join of the fact merge\<close>





section \<open>Failures stay with their table\<close>






section \<open>The derived average rating\<close>













end
